theory Spec2Isabelle
  imports Main "HOL-Library.Word"
begin

unbundle bit_operations_syntax

section \<open>Adafruit\_ImageReader: BMP decoding from storage to display or canvas\<close>

text \<open>
  A shallow embedding of \<^verbatim>\<open>Adafruit_ImageReader.cpp\<close>, in the configuration selected by
  the \<^verbatim>\<open>#else\<close> branches of the file: a non-AVR build (\<^verbatim>\<open>int\<close> is 32 bits,
  \<^verbatim>\<open>DRAWPIXELS\<close> is 200, \<^verbatim>\<open>srcidx\<close> is a \<^verbatim>\<open>uint16_t\<close>) with the portable,
  byte-by-byte little-endian readers. Signed C integers are words read with \<open>sint\<close> and
  compared with \<open><s\<close> and \<open>\<le>s\<close>.
\<close>

subsection \<open>Machine types and constants\<close>

type_synonym uint8_t = "8 word"
type_synonym uint16_t = "16 word"
type_synonym int16_t = "16 word"
type_synonym uint32_t = "32 word"
type_synonym cint = "32 word"

text \<open>Lines 44-50: the buffer capacity in pixels, and \<^verbatim>\<open>sizeof sdbuf\<close> (line 174).\<close>

definition DRAWPIXELS :: nat where
  "DRAWPIXELS = 200"

definition sizeof_sdbuf :: nat where
  "sizeof_sdbuf = 3 * DRAWPIXELS"

text \<open>
  Modelled from the spec: the result codes and the canvas format tags are declared in
  \<^verbatim>\<open>Adafruit_ImageReader.h\<close>, which is not among the sources; the names are the ones
  the code uses.
\<close>

datatype ImageReturnCode =
  IMAGE_SUCCESS | IMAGE_ERR_FILE_NOT_FOUND | IMAGE_ERR_FORMAT | IMAGE_ERR_MALLOC

datatype CanvasFormat = CANVAS_NONE | CANVAS_16

subsection \<open>The storage stream\<close>

text \<open>
  Modelled from the spec: the storage stream (the SD library's \<^verbatim>\<open>File\<close> and
  \<^verbatim>\<open>SD.open\<close>) is a collaborator outside the sources. A file is its bytes, a read
  position and an open flag; \<^verbatim>\<open>read()\<close> returns one byte as an \<^verbatim>\<open>int\<close>, or -1 at
  the end of the data without moving; \<^verbatim>\<open>read(buf, n)\<close> delivers the bytes that are
  left, at most \<open>n\<close>; \<^verbatim>\<open>seek\<close> sets the position; \<^verbatim>\<open>position()\<close> reports it
  as a \<^verbatim>\<open>uint32_t\<close>.
\<close>

record File =
  content :: "uint8_t list"
  fpos :: nat
  is_open :: bool

definition SD_open :: "(string \<rightharpoonup> uint8_t list) \<Rightarrow> string \<Rightarrow> File" where
  "SD_open sd filename =
     (case sd filename of
        None \<Rightarrow> \<lparr>content = [], fpos = 0, is_open = False\<rparr>
      | Some bytes \<Rightarrow> \<lparr>content = bytes, fpos = 0, is_open = True\<rparr>)"

definition File_read :: "File \<Rightarrow> cint \<times> File" where
  "File_read f =
     (if fpos f < length (content f)
      then (ucast (content f ! fpos f), f\<lparr>fpos := fpos f + 1\<rparr>)
      else (- 1, f))"

definition File_read_buf :: "nat \<Rightarrow> File \<Rightarrow> uint8_t list \<times> File" where
  "File_read_buf n f =
     (let bytes = take n (drop (fpos f) (content f))
      in (bytes, f\<lparr>fpos := fpos f + length bytes\<rparr>))"

definition File_position :: "File \<Rightarrow> uint32_t" where
  "File_position f = word_of_nat (fpos f)"

definition File_seek :: "uint32_t \<Rightarrow> File \<Rightarrow> File" where
  "File_seek p f = f\<lparr>fpos := unat p\<rparr>"

definition File_close :: "File \<Rightarrow> File" where
  "File_close f = f\<lparr>is_open := False\<rparr>"

subsection \<open>Little-endian readers (lines 360-391)\<close>

text \<open>
  \<^verbatim>\<open>return file.read() | ((uint16_t)file.read() << 8);\<close> The operands are promoted to
  \<^verbatim>\<open>int\<close>; the result is converted to \<^verbatim>\<open>uint16_t\<close> on return. The bytes are
  taken in the order the expression is written, low byte first. Where every byte is
  there, the direct read of the \<^verbatim>\<open>#if\<close> branch gives the same value.
\<close>

definition readLE16 :: "File \<Rightarrow> uint16_t \<times> File" where
  "readLE16 f =
     (let (b0, f1) = File_read f;
          (b1, f2) = File_read f1
      in (ucast (b0 OR push_bit 8 (ucast (ucast b1 :: uint16_t) :: cint)), f2))"

text \<open>
  \<^verbatim>\<open>return file.read() | ((uint32_t)file.read() << 8) | ((uint32_t)file.read() << 16) |
  ((uint32_t)file.read() << 24);\<close>
\<close>

definition readLE32 :: "File \<Rightarrow> uint32_t \<times> File" where
  "readLE32 f =
     (let (b0, f1) = File_read f;
          (b1, f2) = File_read f1;
          (b2, f3) = File_read f2;
          (b3, f4) = File_read f3
      in (b0 OR push_bit 8 b1 OR push_bit 16 b2 OR push_bit 24 b3, f4))"

subsection \<open>Colour conversion (lines 295-297)\<close>

text \<open>
  \<^verbatim>\<open>((r & 0xF8) << 8) | ((g & 0xFC) << 3) | ((b & 0xF8) >> 3)\<close>: the bytes are promoted
  to \<^verbatim>\<open>int\<close>, and the result is narrowed to the 16-bit destination element.
\<close>

definition color565 :: "uint8_t \<Rightarrow> uint8_t \<Rightarrow> uint8_t \<Rightarrow> uint16_t" where
  "color565 r g b =
     ucast (push_bit 8 ((ucast r :: cint) AND 0xF8)
            OR push_bit 3 ((ucast g :: cint) AND 0xFC)
            OR drop_bit 3 ((ucast b :: cint) AND 0xF8))"

subsection \<open>The display sink, the canvas and the record of calls\<close>

text \<open>
  Modelled from the spec: the display (\<^verbatim>\<open>Adafruit_SPITFT\<close>) is a collaborator outside
  the sources. Its \<^verbatim>\<open>width()\<close> and \<^verbatim>\<open>height()\<close> are \<^verbatim>\<open>int16_t\<close>; the calls made
  on it are recorded as events.
\<close>

record Adafruit_SPITFT =
  tft_width :: int16_t
  tft_height :: int16_t

text \<open>
  Modelled from the spec: the canvas (\<^verbatim>\<open>GFXcanvas16\<close>) is a collaborator outside the
  sources: \<open>allocate(width, height)\<close> gives an owned buffer of exactly width times height
  pixels, or fails. Whether the heap satisfies the request is the parameter \<open>ok\<close>.
\<close>

record GFXcanvas16 =
  canvas_width :: cint
  canvas_height :: cint
  buffer :: "uint16_t list"

definition new_GFXcanvas16 :: "bool \<Rightarrow> cint \<Rightarrow> cint \<Rightarrow> GFXcanvas16 option" where
  "new_GFXcanvas16 ok w h =
     (if ok
      then Some \<lparr>canvas_width = w, canvas_height = h,
                 buffer = replicate (nat (sint w) * nat (sint h)) 0\<rparr>
      else None)"

text \<open>
  The calls \<^verbatim>\<open>coreBMP\<close> and \<^verbatim>\<open>bmpDimensions\<close> make on their collaborators, newest
  first. \<open>FileReadBuf p n\<close> is \<^verbatim>\<open>file.read(sdbuf, n)\<close> issued at stream position \<open>p\<close>.
  The scalar header reads of \<^verbatim>\<open>readLE16\<close> and \<^verbatim>\<open>readLE32\<close> are not recorded.
\<close>

datatype event =
    SdOpen string
  | FileSeek uint32_t
  | FileReadBuf nat nat
  | FileClose
  | StartWrite
  | EndWrite
  | SetAddrWindow int16_t int16_t cint cint
  | WritePixels "uint16_t list"
  | Yield

text \<open>
  What the code finds around it: the card, whether the heap has room for a canvas, and
  the indeterminate initial contents of the two stack arrays \<^verbatim>\<open>sdbuf\<close> (line 174) and
  \<^verbatim>\<open>tftbuf\<close> (line 85).
\<close>

record env =
  card :: "string \<rightharpoonup> uint8_t list"
  heap_ok :: bool
  sdbuf0 :: "uint8_t list"
  tftbuf0 :: "uint16_t list"

subsection \<open>The locals of the scanline loop\<close>

text \<open>
  \<^verbatim>\<open>srcidx\<close> and \<^verbatim>\<open>destidx\<close> are natural numbers: \<^verbatim>\<open>srcidx\<close> is only incremented
  below \<^verbatim>\<open>sizeof sdbuf\<close>, so its \<^verbatim>\<open>uint16_t\<close> never wraps. An index past the end of
  an array is undefined behaviour in C++; the model raises the matching flag and leaves
  the array alone.
\<close>

record decoder =
  sdfile :: File
  sdbuf :: "uint8_t list"
  srcidx :: nat
  dest :: "uint16_t list"
  destidx :: nat
  trace :: "event list"
  sdbuf_overrun :: bool
  dest_overrun :: bool

definition emit :: "event \<Rightarrow> decoder \<Rightarrow> decoder" where
  "emit e s = s\<lparr>trace := e # trace s\<rparr>"

text \<open>\<^verbatim>\<open>file.read(sdbuf, sizeof sdbuf)\<close> (lines 280 and 287).\<close>

definition load_sdbuf :: "decoder \<Rightarrow> decoder" where
  "load_sdbuf s =
     (let (bytes, f) = File_read_buf sizeof_sdbuf (sdfile s)
      in s\<lparr>sdfile := f,
           sdbuf := bytes @ drop (length bytes) (sdbuf s),
           trace := FileReadBuf (fpos (sdfile s)) sizeof_sdbuf # trace s\<rparr>)"

text \<open>\<^verbatim>\<open>if(destidx) { tft->writePixels(dest, destidx); destidx = 0; }\<close>\<close>

definition flush :: "decoder \<Rightarrow> decoder" where
  "flush s =
     (if destidx s \<noteq> 0
      then (emit (WritePixels (take (destidx s) (dest s))) s)\<lparr>destidx := 0\<rparr>
      else s)"

text \<open>Lines 277-290: time to load more data?\<close>

definition refill :: "bool \<Rightarrow> decoder \<Rightarrow> decoder" where
  "refill to_tft s =
     (if sizeof_sdbuf \<le> srcidx s
      then (if to_tft
            then flush (emit StartWrite (load_sdbuf (emit EndWrite s)))
            else load_sdbuf s)\<lparr>srcidx := 0\<rparr>
      else s)"

text \<open>Lines 292-297: convert one pixel from BMP to 565 format, save in dest.\<close>

definition convert :: "decoder \<Rightarrow> decoder" where
  "convert s =
     (let i = srcidx s;
          b = sdbuf s ! i;
          g = sdbuf s ! (i + 1);
          r = sdbuf s ! (i + 2)
      in s\<lparr>srcidx := i + 3,
           dest := (dest s)[destidx s := color565 r g b],
           destidx := destidx s + 1,
           sdbuf_overrun := sdbuf_overrun s \<or> length (sdbuf s) \<le> i + 2,
           dest_overrun := dest_overrun s \<or> length (dest s) \<le> destidx s\<rparr>)"

definition pixel :: "bool \<Rightarrow> decoder \<Rightarrow> decoder" where
  "pixel to_tft s = convert (refill to_tft s)"

text \<open>Line 276: \<^verbatim>\<open>for(col=0; col<loadWidth; col++)\<close>, by the number of pixels left.\<close>

fun pixels :: "bool \<Rightarrow> nat \<Rightarrow> decoder \<Rightarrow> decoder" where
  "pixels to_tft 0 s = s"
| "pixels to_tft (Suc n) s = pixels to_tft n (pixel to_tft s)"

subsection \<open>Header and geometry\<close>

record geometry =
  offset :: uint32_t
  bmpWidth :: cint
  bmpHeight :: cint
  flip :: bool
  rowSize :: uint32_t

text \<open>
  Lines 201-221. \<^verbatim>\<open>depth\<close> is a \<^verbatim>\<open>uint8_t\<close>: the 16-bit field is narrowed on
  assignment. The compression field is read only if the depth is 24.
\<close>

definition parseHeader :: "File \<Rightarrow> geometry option \<times> File" where
  "parseHeader f0 =
     (let (sig, f1) = readLE16 f0
      in if sig = 0x4D42
         then (let (fsize, f2) = readLE32 f1;
                   (creator, f3) = readLE32 f2;
                   (off, f4) = readLE32 f3;
                   (hsize, f5) = readLE32 f4;
                   (w, f6) = readLE32 f5;
                   (h, f7) = readLE32 f6;
                   (planes, f8) = readLE16 f7
               in if planes = 1
                  then (let (d, f9) = readLE16 f8;
                            depth = (ucast d :: uint8_t)
                        in if depth = 24
                           then (let (compression, f10) = readLE32 f9
                                 in if compression = 0
                                    then (Some \<lparr>offset = off, bmpWidth = w,
                                                 bmpHeight = (if h <s 0 then - h else h),
                                                 flip = (\<not> h <s 0),
                                                 rowSize = (w * 3 + 3) AND NOT 3\<rparr>, f10)
                                    else (None, f10))
                           else (None, f9))
                  else (None, f8))
         else (None, f1))"

text \<open>Lines 226-237: crop the area to be loaded (if the destination is the display).\<close>

definition crop :: "Adafruit_SPITFT \<Rightarrow> int16_t \<Rightarrow> int16_t \<Rightarrow> geometry
    \<Rightarrow> int16_t \<times> int16_t \<times> cint \<times> cint" where
  "crop tft x y g =
     (let (loadWidth, x) = (if x <s 0 then (bmpWidth g + scast x, 0) else (bmpWidth g, x));
          (loadHeight, y) = (if y <s 0 then (bmpHeight g + scast y, 0) else (bmpHeight g, y));
          loadWidth = (if scast (tft_width tft) <s scast x + loadWidth
                       then scast (tft_width tft) - scast x else loadWidth);
          loadHeight = (if scast (tft_height tft) <s scast y + loadHeight
                        then scast (tft_height tft) - scast y else loadHeight)
      in (x, y, loadWidth, loadHeight))"

subsection \<open>One scanline (lines 258-306)\<close>

text \<open>Lines 267-270: the byte position of the row in the file.\<close>

definition bmpPos_of :: "geometry \<Rightarrow> nat \<Rightarrow> uint32_t" where
  "bmpPos_of g row =
     (if flip g
      then offset g + (bmpHeight g - 1 - word_of_nat row) * rowSize g
      else offset g + word_of_nat row * rowSize g)"

text \<open>Lines 271-275: need seek?\<close>

definition seek_row :: "bool \<Rightarrow> uint32_t \<Rightarrow> decoder \<Rightarrow> decoder" where
  "seek_row to_tft bmpPos s =
     (if File_position (sdfile s) \<noteq> bmpPos
      then (let s1 = (if to_tft then emit EndWrite s else s);
                s2 = emit (FileSeek bmpPos) (s1\<lparr>sdfile := File_seek bmpPos (sdfile s1)\<rparr>)
            in s2\<lparr>srcidx := sizeof_sdbuf\<rparr>)
      else s)"

text \<open>Lines 299-305: write the remainders to the screen, end the transaction.\<close>

definition end_row :: "bool \<Rightarrow> decoder \<Rightarrow> decoder" where
  "end_row to_tft s = (if to_tft then emit EndWrite (flush s) else s)"

definition scanline :: "bool \<Rightarrow> geometry \<Rightarrow> nat \<Rightarrow> nat \<Rightarrow> decoder \<Rightarrow> decoder" where
  "scanline to_tft g loadWidth row s =
     end_row to_tft
       (pixels to_tft loadWidth
          (seek_row to_tft (bmpPos_of g row) (emit Yield s)))"

text \<open>Line 258: \<^verbatim>\<open>for(row=0; row<loadHeight; row++)\<close>, by the number of rows left.\<close>

fun scanlines :: "bool \<Rightarrow> geometry \<Rightarrow> nat \<Rightarrow> nat \<Rightarrow> nat \<Rightarrow> decoder \<Rightarrow> decoder" where
  "scanlines to_tft g loadWidth row 0 s = s"
| "scanlines to_tft g loadWidth row (Suc n) s =
     scanlines to_tft g loadWidth (Suc row) n (scanline to_tft g loadWidth row s)"

subsection \<open>\<^verbatim>\<open>coreBMP\<close> (lines 158-315)\<close>

text \<open>
  What a call leaves behind: the return code, the caller's variables behind the four
  output pointers (\<open>None\<close> for a null pointer argument; the variable behind
  \<^verbatim>\<open>canvas1\<close>, \<^verbatim>\<open>canvas2\<close> and \<^verbatim>\<open>palette\<close> is itself a pointer, \<open>None\<close> when
  null), the \<^verbatim>\<open>file\<close> member, the calls made, and the two overrun flags.
\<close>

record outcome =
  status :: ImageReturnCode
  out_canvas1 :: "GFXcanvas16 option option"
  out_canvas2 :: "GFXcanvas16 option option"
  out_palette :: "uint16_t list option option"
  out_fmt :: "CanvasFormat option"
  file_member :: File
  calls :: "event list"
  sdbuf_fault :: bool
  dest_fault :: bool

text \<open>
  Lines 169 and 188-190: the status and the outputs before anything is loaded, with the
  \<^verbatim>\<open>file\<close> member and the calls made so far.
\<close>

definition initial_outcome :: "GFXcanvas16 option option \<Rightarrow> GFXcanvas16 option option
    \<Rightarrow> uint16_t list option option \<Rightarrow> CanvasFormat option \<Rightarrow> File \<Rightarrow> event list
    \<Rightarrow> outcome" where
  "initial_outcome canvas1 canvas2 palette fmt f es =
     \<lparr>status = IMAGE_ERR_FORMAT,
      out_canvas1 = canvas1,
      out_canvas2 = map_option (\<lambda>old. None) canvas2,
      out_palette = map_option (\<lambda>old. None) palette,
      out_fmt = map_option (\<lambda>old. CANVAS_NONE) fmt,
      file_member = f, calls = es,
      sdbuf_fault = False, dest_fault = False\<rparr>"

text \<open>Line 194: the image is off the right or bottom edge of the screen.\<close>

definition off_screen :: "Adafruit_SPITFT option \<Rightarrow> int16_t \<Rightarrow> int16_t \<Rightarrow> bool" where
  "off_screen tft x y =
     (case tft of
        None \<Rightarrow> False
      | Some t \<Rightarrow> tft_width t \<le>s x \<or> tft_height t \<le>s y)"

text \<open>
  Lines 223-308, entered with an accepted header. The canvas is reached by the caller
  through the pointer stored at line 254, and its buffer is the array \<^verbatim>\<open>dest\<close> that
  the loop fills afterwards: the model stores the canvas with the final contents of
  \<^verbatim>\<open>dest\<close>. A store through a null \<^verbatim>\<open>canvas1\<close> stores nothing.
\<close>

definition transfer :: "env \<Rightarrow> geometry \<Rightarrow> Adafruit_SPITFT option \<Rightarrow> uint16_t list option
    \<Rightarrow> int16_t \<Rightarrow> int16_t \<Rightarrow> outcome \<Rightarrow> outcome" where
  "transfer e g tft dest0 x0 y0 out =
     (let (x, y, loadWidth, loadHeight) =
            (case tft of
               Some t \<Rightarrow> crop t x0 y0 g
             | None \<Rightarrow> (x0, y0, bmpWidth g, bmpHeight g));
          canvas = (case tft of
                      Some t \<Rightarrow> None
                    | None \<Rightarrow> new_GFXcanvas16 (heap_ok e) (bmpWidth g) (bmpHeight g));
          out1 = (case tft of
                    Some t \<Rightarrow> out
                  | None \<Rightarrow> out\<lparr>status := IMAGE_ERR_MALLOC\<rparr>);
          dest1 = (case canvas of
                     Some c \<Rightarrow> Some (buffer c)
                   | None \<Rightarrow> dest0)
      in case dest1 of
           None \<Rightarrow> out1
         | Some d \<Rightarrow>
             if 0 <s loadWidth \<and> 0 <s loadHeight
             then (let s0 = \<lparr>sdfile = file_member out1, sdbuf = sdbuf0 e,
                              srcidx = sizeof_sdbuf, dest = d, destidx = 0,
                              trace = (case tft of
                                         Some t \<Rightarrow> SetAddrWindow x y loadWidth loadHeight
                                                     # StartWrite # calls out1
                                       | None \<Rightarrow> calls out1),
                              sdbuf_overrun = False, dest_overrun = False\<rparr>;
                       s = scanlines (tft \<noteq> None) g (nat (sint loadWidth)) 0
                             (nat (sint loadHeight)) s0
                   in out1\<lparr>status := IMAGE_SUCCESS,
                           out_canvas1 :=
                             (case tft of
                                Some t \<Rightarrow> out_canvas1 out1
                              | None \<Rightarrow>
                                  map_option
                                    (\<lambda>old. map_option (\<lambda>c. c\<lparr>buffer := dest s\<rparr>) canvas)
                                    (out_canvas1 out1)),
                           out_fmt :=
                             (case tft of
                                Some t \<Rightarrow> out_fmt out1
                              | None \<Rightarrow> map_option (\<lambda>old. CANVAS_16) (out_fmt out1)),
                           file_member := sdfile s,
                           calls := trace s,
                           sdbuf_fault := sdbuf_overrun s,
                           dest_fault := dest_overrun s\<rparr>)
             else out1\<lparr>status := IMAGE_SUCCESS\<rparr>)"

text \<open>
  The whole function. \<open>file0\<close> is the \<^verbatim>\<open>file\<close> member as the call finds it; the two
  early returns (lines 195 and 198) leave without closing anything.
\<close>

definition coreBMP :: "env \<Rightarrow> File \<Rightarrow> string \<Rightarrow> Adafruit_SPITFT option \<Rightarrow> uint16_t list option
    \<Rightarrow> int16_t \<Rightarrow> int16_t \<Rightarrow> GFXcanvas16 option option \<Rightarrow> GFXcanvas16 option option
    \<Rightarrow> uint16_t list option option \<Rightarrow> CanvasFormat option \<Rightarrow> outcome" where
  "coreBMP e file0 filename tft dest0 x y canvas1 canvas2 palette fmt =
     (let out = initial_outcome canvas1 canvas2 palette fmt file0 []
      in if off_screen tft x y
         then out\<lparr>status := IMAGE_SUCCESS\<rparr>
         else (let f = SD_open (card e) filename;
                   out1 = out\<lparr>file_member := f, calls := [SdOpen filename]\<rparr>
               in if \<not> is_open f
                  then out1\<lparr>status := IMAGE_ERR_FILE_NOT_FOUND\<rparr>
                  else (let (hdr, f1) = parseHeader f;
                            out2 = (case hdr of
                                      None \<Rightarrow> out1\<lparr>file_member := f1\<rparr>
                                    | Some g \<Rightarrow>
                                        transfer e g tft dest0 x y (out1\<lparr>file_member := f1\<rparr>))
                        in out2\<lparr>file_member := File_close (file_member out2),
                                calls := FileClose # calls out2\<rparr>)))"

text \<open>Lines 83-91 and 125-134: the two public entry points.\<close>

definition drawBMP :: "env \<Rightarrow> File \<Rightarrow> string \<Rightarrow> Adafruit_SPITFT \<Rightarrow> int16_t \<Rightarrow> int16_t
    \<Rightarrow> outcome" where
  "drawBMP e file0 filename tft x y =
     coreBMP e file0 filename (Some tft) (Some (tftbuf0 e)) x y None None None None"

definition loadBMP :: "env \<Rightarrow> File \<Rightarrow> string \<Rightarrow> GFXcanvas16 option option
    \<Rightarrow> GFXcanvas16 option option \<Rightarrow> uint16_t list option option \<Rightarrow> CanvasFormat option
    \<Rightarrow> outcome" where
  "loadBMP e file0 filename canvas1 canvas2 palette fmt =
     coreBMP e file0 filename None None 0 0 canvas1 canvas2 palette fmt"

subsection \<open>\<^verbatim>\<open>bmpDimensions\<close> (lines 328-352)\<close>

record dimensions =
  dim_status :: ImageReturnCode
  out_width :: "cint option"
  out_height :: "cint option"
  dim_file :: File
  dim_calls :: "event list"

text \<open>
  \<open>width\<close> and \<open>height\<close> are the caller's variables behind the two pointers, \<open>None\<close>
  for a null pointer. Each field is read only under its pointer's test.
\<close>

definition bmpDimensions :: "env \<Rightarrow> string \<Rightarrow> cint option \<Rightarrow> cint option \<Rightarrow> dimensions" where
  "bmpDimensions e filename width height =
     (let f = SD_open (card e) filename;
          r = (if is_open f
               then (let (sig, f1) = readLE16 f
                     in if sig = 0x4D42
                        then (let (fsize, f2) = readLE32 f1;
                                  (creator, f3) = readLE32 f2;
                                  (off, f4) = readLE32 f3;
                                  (hsize, f5) = readLE32 f4;
                                  (width1, f6) =
                                    (case width of
                                       None \<Rightarrow> (None, f5)
                                     | Some old \<Rightarrow> (let (w, f') = readLE32 f5 in (Some w, f')));
                                  (height1, f7) =
                                    (case height of
                                       None \<Rightarrow> (None, f6)
                                     | Some old \<Rightarrow>
                                         (let (h, f') = readLE32 f6
                                          in (Some (if h <s 0 then - h else h), f')))
                              in \<lparr>dim_status = IMAGE_SUCCESS, out_width = width1,
                                  out_height = height1, dim_file = f7,
                                  dim_calls = [SdOpen filename]\<rparr>)
                        else \<lparr>dim_status = IMAGE_ERR_FORMAT, out_width = width,
                              out_height = height, dim_file = f1,
                              dim_calls = [SdOpen filename]\<rparr>)
               else \<lparr>dim_status = IMAGE_ERR_FILE_NOT_FOUND, out_width = width,
                     out_height = height, dim_file = f, dim_calls = [SdOpen filename]\<rparr>)
      in r\<lparr>dim_file := File_close (dim_file r), dim_calls := FileClose # dim_calls r\<rparr>)"

subsection \<open>Reading the record of calls\<close>

text \<open>The pixels sent to the display, in the order they were sent.\<close>

fun pixels_written :: "event list \<Rightarrow> uint16_t list" where
  "pixels_written [] = []"
| "pixels_written (WritePixels ps # es) = pixels_written es @ ps"
| "pixels_written (e # es) = pixels_written es"

text \<open>Is a display write transaction open after these calls?\<close>

fun tx_open :: "event list \<Rightarrow> bool" where
  "tx_open [] = False"
| "tx_open (StartWrite # es) = True"
| "tx_open (EndWrite # es) = False"
| "tx_open (e # es) = tx_open es"

fun storage_access :: "event \<Rightarrow> bool" where
  "storage_access (FileSeek p) = True"
| "storage_access (FileReadBuf p n) = True"
| "storage_access e = False"

text \<open>No seek and no buffer read was issued while a write transaction was open.\<close>

fun exclusive :: "event list \<Rightarrow> bool" where
  "exclusive [] = True"
| "exclusive (e # es) = (exclusive es \<and> (storage_access e \<longrightarrow> \<not> tx_open es))"

fun is_seek :: "event \<Rightarrow> bool" where
  "is_seek (FileSeek p) = True"
| "is_seek e = False"


text \<open>The calls one pixel makes, and the calls of a run of pixels, newest first.\<close>

definition pixel_calls :: "bool \<Rightarrow> decoder \<Rightarrow> event list" where
  "pixel_calls t s =
     (if sizeof_sdbuf \<le> srcidx s
      then (if t
            then (if destidx s \<noteq> 0 then [WritePixels (take (destidx s) (dest s))] else [])
                 @ [StartWrite, FileReadBuf (fpos (sdfile s)) sizeof_sdbuf, EndWrite]
            else [FileReadBuf (fpos (sdfile s)) sizeof_sdbuf])
      else [])"

fun pixels_calls :: "bool \<Rightarrow> nat \<Rightarrow> decoder \<Rightarrow> event list" where
  "pixels_calls t 0 s = []"
| "pixels_calls t (Suc n) s = pixels_calls t n (pixel t s) @ pixel_calls t s"

fun is_buf_read :: "event \<Rightarrow> bool" where
  "is_buf_read (FileReadBuf p n) = True"
| "is_buf_read e = False"

text \<open>Every buffer read is followed at once by the restart of the write transaction.\<close>

fun restarted :: "event list \<Rightarrow> bool" where
  "restarted (e # e' # es) = ((is_buf_read e' \<longrightarrow> e = StartWrite) \<and> restarted (e' # es))"
| "restarted es = True"

subsection \<open>The header as the format lays it out\<close>

text \<open>The little-endian fields of a byte sequence, by offset (spec section 6).\<close>

definition field16 :: "uint8_t list \<Rightarrow> nat \<Rightarrow> uint16_t" where
  "field16 bytes i = ucast (bytes ! i) OR push_bit 8 (ucast (bytes ! (i + 1)))"

definition field32 :: "uint8_t list \<Rightarrow> nat \<Rightarrow> uint32_t" where
  "field32 bytes i =
     ucast (bytes ! i) OR push_bit 8 (ucast (bytes ! (i + 1)))
       OR push_bit 16 (ucast (bytes ! (i + 2))) OR push_bit 24 (ucast (bytes ! (i + 3)))"

text \<open>
  The headers \<^verbatim>\<open>coreBMP\<close> goes on to decode: all 34 bytes are there, and the four
  tests of lines 201-211 pass (the depth as the code compares it, narrowed to 8 bits).
\<close>

definition header_accepted :: "uint8_t list \<Rightarrow> bool" where
  "header_accepted bytes =
     (34 \<le> length bytes \<and> field16 bytes 0 = 0x4D42 \<and> field16 bytes 26 = 1
      \<and> (ucast (field16 bytes 28) :: uint8_t) = 24 \<and> field32 bytes 30 = 0)"

definition geometry_of :: "uint8_t list \<Rightarrow> geometry" where
  "geometry_of bytes =
     \<lparr>offset = field32 bytes 10,
      bmpWidth = field32 bytes 18,
      bmpHeight = (if field32 bytes 22 <s 0 then - field32 bytes 22 else field32 bytes 22),
      flip = (\<not> field32 bytes 22 <s 0),
      rowSize = (field32 bytes 18 * 3 + 3) AND NOT 3\<rparr>"

subsection \<open>Invariants of the scanline loop\<close>

definition tx_inv :: "event list \<Rightarrow> bool" where
  "tx_inv es =
     (exclusive es \<and> restarted es
      \<and> (case es of [] \<Rightarrow> True | e # es' \<Rightarrow> \<not> is_buf_read e))"

definition src_inv :: "decoder \<Rightarrow> bool" where
  "src_inv s =
     (srcidx s mod 3 = 0 \<and> srcidx s \<le> sizeof_sdbuf \<and> length (sdbuf s) = sizeof_sdbuf
      \<and> \<not> sdbuf_overrun s)"

definition dest_inv :: "decoder \<Rightarrow> bool" where
  "dest_inv s =
     (src_inv s \<and> 3 * destidx s \<le> srcidx s \<and> DRAWPIXELS \<le> length (dest s)
      \<and> \<not> dest_overrun s)"

subsection \<open>A sample card\<close>

text \<open>
  A 6 by 1 image, 24 bits, uncompressed, stored bottom-up at offset 54: blue, green,
  three black pixels and red, then two bytes of padding.
\<close>

definition sample_bmp :: "uint8_t list" where
  "sample_bmp =
     [0x42, 0x4D, 0x4A, 0, 0, 0, 0, 0, 0, 0, 0x36, 0, 0, 0,
      0x28, 0, 0, 0, 6, 0, 0, 0, 1, 0, 0, 0, 1, 0, 0x18, 0, 0, 0, 0, 0,
      0x14, 0, 0, 0, 0, 0, 0, 0, 0, 0, 0, 0, 0, 0, 0, 0, 0, 0, 0, 0,
      0xFF, 0, 0,  0, 0xFF, 0,  0, 0, 0,  0, 0, 0,  0, 0, 0,  0, 0, 0xFF,  0, 0]"

text \<open>The same file with a negative height (top-down), a wrong signature, a zero width.\<close>

definition sample_topdown :: "uint8_t list" where
  "sample_topdown = sample_bmp[22 := 0xFF, 23 := 0xFF, 24 := 0xFF, 25 := 0xFF]"

definition sample_not_bmp :: "uint8_t list" where
  "sample_not_bmp = sample_bmp[0 := 0x58]"

definition sample_empty :: "uint8_t list" where
  "sample_empty = sample_bmp[18 := 0]"

text \<open>
  A 200 by 2 image stored top-down (height field -2), row stride 600 with no padding.
  Row 0 is blue, green, then black; row 1 is red, then black.
\<close>

definition sample_wide :: "uint8_t list" where
  "sample_wide =
     [0x42, 0x4D, 0xE6, 0x04, 0, 0, 0, 0, 0, 0, 0x36, 0, 0, 0,
      0x28, 0, 0, 0, 0xC8, 0, 0, 0, 0xFE, 0xFF, 0xFF, 0xFF, 1, 0, 0x18, 0, 0, 0, 0, 0,
      0xB0, 0x04, 0, 0, 0, 0, 0, 0, 0, 0, 0, 0, 0, 0, 0, 0, 0, 0, 0, 0]
     @ [0xFF, 0, 0,  0, 0xFF, 0] @ replicate 594 0
     @ [0, 0, 0xFF] @ replicate 597 0"

definition sample_env :: env where
  "sample_env =
     \<lparr>card = [''a.bmp'' \<mapsto> sample_bmp, ''t.bmp'' \<mapsto> sample_topdown,
              ''x.bmp'' \<mapsto> sample_not_bmp, ''e.bmp'' \<mapsto> sample_empty,
              ''w.bmp'' \<mapsto> sample_wide],
      heap_ok = True,
      sdbuf0 = replicate sizeof_sdbuf 0, tftbuf0 = replicate DRAWPIXELS 0\<rparr>"


definition no_file :: File where
  "no_file = \<lparr>content = [], fpos = 0, is_open = False\<rparr>"

definition sample_tft :: Adafruit_SPITFT where
  "sample_tft = \<lparr>tft_width = 240, tft_height = 320\<rparr>"

section \<open>Facts about the header readers\<close>

lemma narrow16:
  "(ucast ((ucast (a :: uint8_t) :: cint)
      OR push_bit 8 (ucast (ucast (ucast (b :: uint8_t) :: cint) :: uint16_t))) :: uint16_t)
   = ucast a OR push_bit 8 (ucast b)"
  by (rule bit_word_eqI) (auto simp add: bit_simps)

lemma readLE16_full:
  "fpos f + 2 \<le> length (content f) \<Longrightarrow>
   readLE16 f = (field16 (content f) (fpos f), f\<lparr>fpos := fpos f + 2\<rparr>)"
  by (simp add: readLE16_def File_read_def field16_def narrow16)

lemma readLE32_full:
  "fpos f + 4 \<le> length (content f) \<Longrightarrow>
   readLE32 f = (field32 (content f) (fpos f), f\<lparr>fpos := fpos f + 4\<rparr>)"
  by (simp add: readLE32_def File_read_def field32_def eval_nat_numeral)

lemma readLE32_short:
  "\<not> fpos f + 4 \<le> length (content f) \<Longrightarrow> fst (readLE32 f) \<noteq> 0"
  by (auto simp add: readLE32_def File_read_def bit_simps split: if_splits
      dest!: arg_cong [where f = "\<lambda>w. bit w 31"])

lemma readLE16_content [simp]: "content (snd (readLE16 f)) = content f"
  by (simp add: readLE16_def File_read_def)

lemma readLE32_content [simp]: "content (snd (readLE32 f)) = content f"
  by (simp add: readLE32_def File_read_def)

lemma readLE16_is_open [simp]: "is_open (snd (readLE16 f)) = is_open f"
  by (simp add: readLE16_def File_read_def)

lemma readLE32_is_open [simp]: "is_open (snd (readLE32 f)) = is_open f"
  by (simp add: readLE32_def File_read_def)

lemma readLE16_back:
  "fpos (snd (readLE16 f)) + m \<le> length (content f) \<Longrightarrow> 0 < m \<Longrightarrow>
   fpos f + 2 + m \<le> length (content f)"
  by (auto simp add: readLE16_def File_read_def split: if_splits)

lemma readLE32_back:
  "fpos (snd (readLE32 f)) + m \<le> length (content f) \<Longrightarrow> 0 < m \<Longrightarrow>
   fpos f + 4 + m \<le> length (content f)"
  by (auto simp add: readLE32_def File_read_def split: if_splits)

lemma parseHeader_Some_length:
  assumes "parseHeader f = (Some g, f')"
  shows "fpos f + 34 \<le> length (content f)"
proof -
  define f1 where "f1 = snd (readLE16 f)"
  define f2 where "f2 = snd (readLE32 f1)"
  define f3 where "f3 = snd (readLE32 f2)"
  define f4 where "f4 = snd (readLE32 f3)"
  define f5 where "f5 = snd (readLE32 f4)"
  define f6 where "f6 = snd (readLE32 f5)"
  define f7 where "f7 = snd (readLE32 f6)"
  define f8 where "f8 = snd (readLE16 f7)"
  define f9 where "f9 = snd (readLE16 f8)"
  note fs = f1_def f2_def f3_def f4_def f5_def f6_def f7_def f8_def f9_def
  have c: "content f9 = content f" "content f8 = content f" "content f7 = content f"
    "content f6 = content f" "content f5 = content f" "content f4 = content f"
    "content f3 = content f" "content f2 = content f" "content f1 = content f"
    by (simp_all add: fs)
  from assms have "fst (readLE32 f9) = 0"
    by (simp add: parseHeader_def fs case_prod_beta Let_def split: if_splits)
  then have "fpos f9 + 4 \<le> length (content f)"
    using readLE32_short [of f9] c by auto
  then have "fpos f8 + 2 + 4 \<le> length (content f)"
    using readLE16_back [of f8 4] c by (simp add: f9_def)
  then have "fpos f7 + 2 + 6 \<le> length (content f)"
    using readLE16_back [of f7 6] c by (simp add: f8_def)
  then have "fpos f6 + 4 + 8 \<le> length (content f)"
    using readLE32_back [of f6 8] c by (simp add: f7_def)
  then have "fpos f5 + 4 + 12 \<le> length (content f)"
    using readLE32_back [of f5 12] c by (simp add: f6_def)
  then have "fpos f4 + 4 + 16 \<le> length (content f)"
    using readLE32_back [of f4 16] c by (simp add: f5_def)
  then have "fpos f3 + 4 + 20 \<le> length (content f)"
    using readLE32_back [of f3 20] c by (simp add: f4_def)
  then have "fpos f2 + 4 + 24 \<le> length (content f)"
    using readLE32_back [of f2 24] c by (simp add: f3_def)
  then have "fpos f1 + 4 + 28 \<le> length (content f)"
    using readLE32_back [of f1 28] c by (simp add: f2_def)
  then show ?thesis
    using readLE16_back [of f 32] by (simp add: f1_def)
qed

lemma parseHeader_full:
  assumes "fpos f = 0" and "34 \<le> length (content f)"
  shows "parseHeader f =
     (if field16 (content f) 0 = 0x4D42
      then if field16 (content f) 26 = 1
           then if (ucast (field16 (content f) 28) :: uint8_t) = 24
                then if field32 (content f) 30 = 0
                     then (Some (geometry_of (content f)), f\<lparr>fpos := 34\<rparr>)
                     else (None, f\<lparr>fpos := 34\<rparr>)
                else (None, f\<lparr>fpos := 30\<rparr>)
           else (None, f\<lparr>fpos := 28\<rparr>)
      else (None, f\<lparr>fpos := 2\<rparr>))"
  using assms
  by (simp add: parseHeader_def readLE16_full readLE32_full geometry_of_def)

lemma parseHeader_accepted:
  assumes "fpos f = 0"
  shows "parseHeader f =
     (if header_accepted (content f)
      then (Some (geometry_of (content f)), f\<lparr>fpos := 34\<rparr>)
      else (None, snd (parseHeader f)))"
proof (cases "34 \<le> length (content f)")
  case True
  with assms show ?thesis
    by (simp add: parseHeader_full header_accepted_def)
next
  case False
  have "fst (parseHeader f) = None"
  proof (cases "fst (parseHeader f)")
    case None
    then show ?thesis .
  next
    case (Some g)
    then have "parseHeader f = (Some g, snd (parseHeader f))"
      by (metis prod.collapse)
    from parseHeader_Some_length [OF this] False assms show ?thesis by simp
  qed
  with False show ?thesis
    by (simp add: header_accepted_def prod_eq_iff)
qed

lemma parseHeader_content [simp]: "content (snd (parseHeader f)) = content f"
  by (simp add: parseHeader_def case_prod_beta Let_def)

lemma parseHeader_is_open [simp]: "is_open (snd (parseHeader f)) = is_open f"
  by (simp add: parseHeader_def case_prod_beta Let_def)

lemma parseHeader_accept:
  "fpos f = 0 \<Longrightarrow> header_accepted (content f) \<Longrightarrow>
   parseHeader f = (Some (geometry_of (content f)), f\<lparr>fpos := 34\<rparr>)"
  using parseHeader_accepted [of f] by simp

lemma parseHeader_reject:
  "fpos f = 0 \<Longrightarrow> \<not> header_accepted (content f) \<Longrightarrow> fst (parseHeader f) = None"
  using parseHeader_accepted [of f] by (simp add: prod_eq_iff)

section \<open>The four ways through the decoder\<close>

lemma coreBMP_off_screen:
  "off_screen tft x y \<Longrightarrow>
   coreBMP e file0 filename tft dest0 x y canvas1 canvas2 palette fmt =
     (initial_outcome canvas1 canvas2 palette fmt file0 [])\<lparr>status := IMAGE_SUCCESS\<rparr>"
  by (simp add: coreBMP_def initial_outcome_def)

lemma coreBMP_not_found:
  "\<not> off_screen tft x y \<Longrightarrow> card e filename = None \<Longrightarrow>
   coreBMP e file0 filename tft dest0 x y canvas1 canvas2 palette fmt =
     (initial_outcome canvas1 canvas2 palette fmt \<lparr>content = [], fpos = 0, is_open = False\<rparr>
        [SdOpen filename])\<lparr>status := IMAGE_ERR_FILE_NOT_FOUND\<rparr>"
  by (simp add: coreBMP_def initial_outcome_def SD_open_def)

lemma coreBMP_rejected:
  "\<not> off_screen tft x y \<Longrightarrow> card e filename = Some bytes \<Longrightarrow> \<not> header_accepted bytes \<Longrightarrow>
   coreBMP e file0 filename tft dest0 x y canvas1 canvas2 palette fmt =
     initial_outcome canvas1 canvas2 palette fmt
       (File_close (snd (parseHeader \<lparr>content = bytes, fpos = 0, is_open = True\<rparr>)))
       [FileClose, SdOpen filename]"
  by (simp add: coreBMP_def initial_outcome_def SD_open_def Let_def case_prod_beta parseHeader_reject)

lemma coreBMP_accepted:
  "\<not> off_screen tft x y \<Longrightarrow> card e filename = Some bytes \<Longrightarrow> header_accepted bytes \<Longrightarrow>
   coreBMP e file0 filename tft dest0 x y canvas1 canvas2 palette fmt =
     (let out2 = transfer e (geometry_of bytes) tft dest0 x y
                   (initial_outcome canvas1 canvas2 palette fmt
                      \<lparr>content = bytes, fpos = 34, is_open = True\<rparr> [SdOpen filename])
      in out2\<lparr>file_member := File_close (file_member out2),
              calls := FileClose # calls out2\<rparr>)"
  by (simp add: coreBMP_def initial_outcome_def SD_open_def Let_def parseHeader_accept)

section \<open>The sample decode\<close>

lemma pixels_numeral: "pixels t (numeral k) s = pixels t (pred_numeral k) (pixel t s)"
  by (simp add: numeral_eq_Suc)

lemma scanlines_numeral:
  "scanlines t g w row (numeral k) s = scanlines t g w (Suc row) (pred_numeral k) (scanline t g w row s)"
  by (simp add: numeral_eq_Suc)

lemma sample_accepted: "header_accepted sample_bmp"
  by (simp add: header_accepted_def field16_def field32_def sample_bmp_def)

lemma sample_geometry:
  "geometry_of sample_bmp = \<lparr>offset = 54, bmpWidth = 6, bmpHeight = 1, flip = True, rowSize = 20\<rparr>"
  by (simp add: geometry_of_def field32_def sample_bmp_def word_sless_alt)

lemmas loop_defs = scanline_def seek_row_def end_row_def pixel_def
  refill_def convert_def flush_def load_sdbuf_def emit_def bmpPos_of_def color565_def File_read_buf_def File_position_def
  File_seek_def File_close_def sizeof_sdbuf_def DRAWPIXELS_def pixels_numeral scanlines_numeral

lemma sample_scan:
  "scanline True \<lparr>offset = 54, bmpWidth = 6, bmpHeight = 1, flip = True, rowSize = 20\<rparr> (Suc 0) 0
     \<lparr>sdfile = \<lparr>content = sample_bmp, fpos = 34, is_open = True\<rparr>,
      sdbuf = replicate 600 0, srcidx = 600, dest = replicate 200 0, destidx = 0,
      trace = [SetAddrWindow 0 0 1 1, StartWrite, SdOpen ''a.bmp''],
      sdbuf_overrun = False, dest_overrun = False\<rparr>
   = \<lparr>sdfile = \<lparr>content = sample_bmp, fpos = 74, is_open = True\<rparr>,
      sdbuf = drop 54 sample_bmp @ replicate 580 0, srcidx = 3,
      dest = (replicate 200 0)[0 := 0x001F], destidx = 0,
      trace = [EndWrite, WritePixels [0x001F], StartWrite, FileReadBuf 54 600, EndWrite,
               FileSeek 54, EndWrite, Yield, SetAddrWindow 0 0 1 1, StartWrite, SdOpen ''a.bmp''],
      sdbuf_overrun = False, dest_overrun = False\<rparr>"
  by (simp add: loop_defs sample_bmp_def Let_def take_update_swap)

lemma sample_draw:
  "drawBMP sample_env no_file ''a.bmp'' sample_tft (- 5) 0 =
     \<lparr>status = IMAGE_SUCCESS, out_canvas1 = None, out_canvas2 = None, out_palette = None,
      out_fmt = None,
      file_member = \<lparr>content = sample_bmp, fpos = 74, is_open = False\<rparr>,
      calls = [FileClose, EndWrite, WritePixels [0x001F], StartWrite, FileReadBuf 54 600,
               EndWrite, FileSeek 54, EndWrite, Yield, SetAddrWindow 0 0 1 1, StartWrite,
               SdOpen ''a.bmp''],
      sdbuf_fault = False, dest_fault = False\<rparr>"
proof -
  have "coreBMP sample_env no_file ''a.bmp'' (Some sample_tft) (Some (tftbuf0 sample_env)) (- 5) 0
          None None None None =
     (let out2 = transfer sample_env (geometry_of sample_bmp) (Some sample_tft)
                   (Some (tftbuf0 sample_env)) (- 5) 0
                   (initial_outcome None None None None
                      \<lparr>content = sample_bmp, fpos = 34, is_open = True\<rparr> [SdOpen ''a.bmp''])
      in out2\<lparr>file_member := File_close (file_member out2),
              calls := FileClose # calls out2\<rparr>)"
    by (rule coreBMP_accepted)
      (simp_all add: sample_env_def off_screen_def sample_tft_def sample_accepted word_sle_eq)
  then show ?thesis
    by (simp add: drawBMP_def sample_geometry sample_env_def sample_tft_def transfer_def
        crop_def initial_outcome_def word_sless_alt sizeof_sdbuf_def DRAWPIXELS_def sample_scan Let_def
        File_close_def)
qed

section \<open>Storage and display never overlap\<close>

lemma tx_inv_emit:
  "tx_inv es \<Longrightarrow> \<not> storage_access e \<Longrightarrow> tx_inv (e # es)"
  by (cases es; cases e) (auto simp add: tx_inv_def)

lemma tx_inv_seek:
  "tx_inv es \<Longrightarrow> tx_inv (FileSeek p # EndWrite # es)"
  by (cases es) (auto simp add: tx_inv_def)

lemma tx_inv_read:
  "tx_inv es \<Longrightarrow> tx_inv (StartWrite # FileReadBuf p n # EndWrite # es)"
  by (cases es) (auto simp add: tx_inv_def)

lemma tx_inv_flush: "tx_inv (trace s) \<Longrightarrow> tx_inv (trace (flush s))"
  by (simp add: flush_def emit_def tx_inv_emit)

lemma tx_inv_refill: "tx_inv (trace s) \<Longrightarrow> tx_inv (trace (refill True s))"
  by (simp add: refill_def flush_def emit_def load_sdbuf_def case_prod_beta tx_inv_emit tx_inv_read)

lemma tx_inv_pixel: "tx_inv (trace s) \<Longrightarrow> tx_inv (trace (pixel True s))"
  by (simp add: pixel_def convert_def Let_def tx_inv_refill)

lemma tx_inv_pixels: "tx_inv (trace s) \<Longrightarrow> tx_inv (trace (pixels True n s))"
  by (induction n arbitrary: s) (simp_all add: tx_inv_pixel)

lemma tx_inv_seek_row: "tx_inv (trace s) \<Longrightarrow> tx_inv (trace (seek_row True p s))"
  by (simp add: seek_row_def emit_def Let_def tx_inv_seek)

lemma tx_inv_end_row: "tx_inv (trace s) \<Longrightarrow> tx_inv (trace (end_row True s))"
  by (simp add: end_row_def emit_def tx_inv_emit tx_inv_flush)

lemma tx_inv_scanline: "tx_inv (trace s) \<Longrightarrow> tx_inv (trace (scanline True g w row s))"
  by (simp add: scanline_def tx_inv_end_row tx_inv_pixels tx_inv_seek_row emit_def tx_inv_emit)

lemma tx_inv_scanlines: "tx_inv (trace s) \<Longrightarrow> tx_inv (trace (scanlines True g w row n s))"
  by (induction n arbitrary: s row) (simp_all add: tx_inv_scanline)

lemma tx_inv_transfer:
  "tx_inv (calls out) \<Longrightarrow> tx_inv (calls (transfer e g (Some t) d x y out))"
  by (auto simp add: transfer_def Let_def tx_inv_scanlines tx_inv_emit
      split: option.splits prod.splits)

lemma tx_inv_coreBMP:
  "tx_inv (calls (coreBMP e file0 filename (Some t) d x y canvas1 canvas2 palette fmt))"
proof (cases "off_screen (Some t) x y")
  case True
  then show ?thesis by (simp add: coreBMP_off_screen initial_outcome_def tx_inv_def)
next
  case False
  note vis = this
  show ?thesis
  proof (cases "card e filename")
    case None
    with vis show ?thesis by (simp add: coreBMP_not_found initial_outcome_def tx_inv_def)
  next
    case (Some bytes)
    show ?thesis
    proof (cases "header_accepted bytes")
      case False
      with vis Some show ?thesis by (simp add: coreBMP_rejected initial_outcome_def tx_inv_def)
    next
      case True
      have "tx_inv [SdOpen filename]" by (simp add: tx_inv_def)
      then have "tx_inv (calls (transfer e (geometry_of bytes) (Some t) d x y
              (initial_outcome canvas1 canvas2 palette fmt
                 \<lparr>content = bytes, fpos = 34, is_open = True\<rparr> [SdOpen filename])))"
        by (intro tx_inv_transfer) (simp add: initial_outcome_def)
      with vis Some True show ?thesis
        by (simp add: coreBMP_accepted Let_def tx_inv_emit)
    qed
  qed
qed

text \<open>
  Claim C2. In a decode to the display, no storage seek and no read of the transfer
  buffer is issued while a display write transaction is open (\<open>exclusive\<close>): the
  transaction is ended before each of them, and after each buffer read it is started
  again at once (\<open>restarted\<close>).
\<close>

theorem transaction_closed_at_storage_access:
  "exclusive (calls (coreBMP e file0 filename (Some t) d x y canvas1 canvas2 palette fmt))
   \<and> restarted (calls (coreBMP e file0 filename (Some t) d x y canvas1 canvas2 palette fmt))"
  using tx_inv_coreBMP [of e file0 filename t d x y canvas1 canvas2 palette fmt]
  by (simp add: tx_inv_def)

theorem transaction_closed_at_storage_access_witness:
  "exclusive (calls (drawBMP sample_env no_file ''a.bmp'' sample_tft (- 5) 0))
   \<and> restarted (calls (drawBMP sample_env no_file ''a.bmp'' sample_tft (- 5) 0))
   \<and> FileSeek 54 \<in> set (calls (drawBMP sample_env no_file ''a.bmp'' sample_tft (- 5) 0))
   \<and> FileReadBuf 54 600 \<in> set (calls (drawBMP sample_env no_file ''a.bmp'' sample_tft (- 5) 0))"
  using transaction_closed_at_storage_access
    [of sample_env no_file "''a.bmp''" sample_tft "Some (tftbuf0 sample_env)" "- 5" 0
      None None None None]
  by (simp add: drawBMP_def [symmetric] sample_draw)

section \<open>Closing the stream\<close>

lemma closes_pixel: "count_list (trace (pixel t s)) FileClose = count_list (trace s) FileClose"
  by (simp add: pixel_def convert_def refill_def flush_def emit_def load_sdbuf_def
      case_prod_beta Let_def)

lemma closes_pixels: "count_list (trace (pixels t n s)) FileClose = count_list (trace s) FileClose"
  by (induction n arbitrary: s) (simp_all add: closes_pixel)

lemma closes_scanline:
  "count_list (trace (scanline t g w row s)) FileClose = count_list (trace s) FileClose"
  by (simp add: scanline_def end_row_def flush_def emit_def closes_pixels seek_row_def Let_def)

lemma closes_scanlines:
  "count_list (trace (scanlines t g w row n s)) FileClose = count_list (trace s) FileClose"
  by (induction n arbitrary: s row) (simp_all add: closes_scanline)

lemma is_open_pixel: "is_open (sdfile (pixel t s)) = is_open (sdfile s)"
  by (simp add: pixel_def convert_def refill_def flush_def emit_def load_sdbuf_def
      File_read_buf_def case_prod_beta Let_def)

lemma is_open_pixels: "is_open (sdfile (pixels t n s)) = is_open (sdfile s)"
  by (induction n arbitrary: s) (simp_all add: is_open_pixel)

lemma is_open_scanline: "is_open (sdfile (scanline t g w row s)) = is_open (sdfile s)"
  by (simp add: scanline_def end_row_def flush_def emit_def is_open_pixels seek_row_def
      File_seek_def Let_def)

lemma is_open_scanlines: "is_open (sdfile (scanlines t g w row n s)) = is_open (sdfile s)"
  by (induction n arbitrary: s row) (simp_all add: is_open_scanline)

lemma closes_transfer:
  "count_list (calls (transfer e g tft d x y out)) FileClose = count_list (calls out) FileClose"
  by (auto simp add: transfer_def Let_def closes_scanlines split: option.splits prod.splits)

lemma is_open_transfer:
  "is_open (file_member (transfer e g tft d x y out)) = is_open (file_member out)"
  by (auto simp add: transfer_def Let_def is_open_scanlines split: option.splits prod.splits)

text \<open>
  Claim C8, as amended. A call that opened the stream closes it exactly once, whatever
  the outcome; the off-screen return and the failed open close nothing, because nothing
  was opened. The \<^verbatim>\<open>file\<close> member is open afterwards only if the call returned
  off-screen and found it open.
\<close>

theorem stream_closed_once_when_opened:
  "count_list (calls (coreBMP e file0 filename tft d x y canvas1 canvas2 palette fmt)) FileClose
     = (if off_screen tft x y \<or> card e filename = None then 0 else 1)
   \<and> is_open (file_member (coreBMP e file0 filename tft d x y canvas1 canvas2 palette fmt))
     = (off_screen tft x y \<and> is_open file0)"
proof (cases "off_screen tft x y")
  case True
  then show ?thesis by (simp add: coreBMP_off_screen initial_outcome_def)
next
  case False
  note vis = this
  show ?thesis
  proof (cases "card e filename")
    case None
    with vis show ?thesis by (simp add: coreBMP_not_found initial_outcome_def)
  next
    case (Some bytes)
    show ?thesis
    proof (cases "header_accepted bytes")
      case False
      with vis Some show ?thesis by (simp add: coreBMP_rejected initial_outcome_def File_close_def)
    next
      case True
      with vis Some show ?thesis
        by (simp add: coreBMP_accepted Let_def closes_transfer is_open_transfer initial_outcome_def
            File_close_def)
    qed
  qed
qed

theorem stream_closed_once_when_opened_witness:
  "count_list (calls (drawBMP sample_env no_file ''a.bmp'' sample_tft (- 5) 0)) FileClose = 1
   \<and> \<not> is_open (file_member (drawBMP sample_env no_file ''a.bmp'' sample_tft (- 5) 0))"
  using stream_closed_once_when_opened
    [of sample_env no_file "''a.bmp''" "Some sample_tft" "Some (tftbuf0 sample_env)" "- 5" 0
      None None None None]
  by (simp add: drawBMP_def off_screen_def sample_env_def sample_tft_def word_sle_eq)

text \<open>
  Claim C8 as stated fails: a decode placed off the right edge of the display returns
  before the stream is opened, and no close is issued.
\<close>

theorem stream_closed_once_counterexample:
  "count_list (calls (drawBMP sample_env no_file ''a.bmp'' sample_tft 240 0)) FileClose \<noteq> 1"
  by (simp add: drawBMP_def coreBMP_off_screen off_screen_def sample_tft_def word_sle_eq
      initial_outcome_def)

section \<open>The buffer indices\<close>

lemma src_inv_refill:
  "src_inv s \<Longrightarrow> src_inv (refill t s) \<and> srcidx (refill t s) < sizeof_sdbuf"
  by (auto simp add: src_inv_def refill_def flush_def emit_def load_sdbuf_def File_read_buf_def
      Let_def sizeof_sdbuf_def DRAWPIXELS_def)

lemma src_inv_convert:
  "src_inv s \<Longrightarrow> srcidx s < sizeof_sdbuf \<Longrightarrow> src_inv (convert s)"
  by (auto simp add: src_inv_def convert_def Let_def sizeof_sdbuf_def)

lemma src_inv_pixel: "src_inv s \<Longrightarrow> src_inv (pixel t s)"
  using src_inv_refill [of s t] by (simp add: pixel_def src_inv_convert)

lemma src_inv_pixels: "src_inv s \<Longrightarrow> src_inv (pixels t n s)"
  by (induction n arbitrary: s) (simp_all add: src_inv_pixel)

lemma src_inv_seek_row: "src_inv s \<Longrightarrow> src_inv (seek_row t p s)"
  by (auto simp add: src_inv_def seek_row_def emit_def Let_def sizeof_sdbuf_def)

lemma src_inv_end_row: "src_inv s \<Longrightarrow> src_inv (end_row t s)"
  by (auto simp add: src_inv_def end_row_def flush_def emit_def)

lemma src_inv_emit: "src_inv s \<Longrightarrow> src_inv (emit e s)"
  by (simp add: src_inv_def emit_def)

lemma src_inv_scanline: "src_inv s \<Longrightarrow> src_inv (scanline t g w row s)"
  by (simp add: scanline_def src_inv_end_row src_inv_pixels src_inv_seek_row src_inv_emit)

lemma src_inv_scanlines: "src_inv s \<Longrightarrow> src_inv (scanlines t g w row n s)"
  by (induction n arbitrary: s row) (simp_all add: src_inv_scanline)

lemma dest_inv_refill:
  "dest_inv s \<Longrightarrow> dest_inv (refill True s) \<and> srcidx (refill True s) < sizeof_sdbuf"
  by (auto simp add: dest_inv_def src_inv_def refill_def flush_def emit_def load_sdbuf_def
      File_read_buf_def Let_def sizeof_sdbuf_def DRAWPIXELS_def)

lemma dest_inv_convert:
  "dest_inv s \<Longrightarrow> srcidx s < sizeof_sdbuf \<Longrightarrow> dest_inv (convert s)"
  by (auto simp add: dest_inv_def src_inv_def convert_def Let_def sizeof_sdbuf_def)

lemma dest_inv_pixel: "dest_inv s \<Longrightarrow> dest_inv (pixel True s)"
  using dest_inv_refill [of s] by (simp add: pixel_def dest_inv_convert)

lemma dest_inv_pixels: "dest_inv s \<Longrightarrow> dest_inv (pixels True n s)"
  by (induction n arbitrary: s) (simp_all add: dest_inv_pixel)

lemma dest_inv_seek_row: "dest_inv s \<Longrightarrow> dest_inv (seek_row True p s)"
  by (auto simp add: dest_inv_def src_inv_def seek_row_def emit_def Let_def sizeof_sdbuf_def)

lemma dest_inv_end_row: "dest_inv s \<Longrightarrow> dest_inv (end_row True s)"
  by (auto simp add: dest_inv_def src_inv_def end_row_def flush_def emit_def)

lemma dest_inv_emit: "dest_inv s \<Longrightarrow> dest_inv (emit e s)"
  by (simp add: dest_inv_def src_inv_def emit_def)

lemma dest_inv_scanline: "dest_inv s \<Longrightarrow> dest_inv (scanline True g w row s)"
  by (simp add: scanline_def dest_inv_end_row dest_inv_pixels dest_inv_seek_row dest_inv_emit)

lemma dest_inv_scanlines: "dest_inv s \<Longrightarrow> dest_inv (scanlines True g w row n s)"
  by (induction n arbitrary: s row) (simp_all add: dest_inv_scanline)

lemma sdbuf_fault_transfer:
  assumes "length (sdbuf0 e) = sizeof_sdbuf" and "\<not> sdbuf_fault out"
  shows "\<not> sdbuf_fault (transfer e g tft d x y out)"
proof -
  have "src_inv (scanlines t g w 0 h
        \<lparr>sdfile = f, sdbuf = sdbuf0 e, srcidx = sizeof_sdbuf, dest = buf, destidx = 0,
         trace = tr, sdbuf_overrun = False, dest_overrun = False\<rparr>)" for t w h f buf tr
    using assms(1) by (intro src_inv_scanlines) (simp add: src_inv_def sizeof_sdbuf_def)
  then show ?thesis
    using assms(2)
    by (auto simp add: transfer_def Let_def src_inv_def split: option.splits prod.splits)
qed

lemma dest_fault_transfer:
  assumes "length (sdbuf0 e) = sizeof_sdbuf" and "DRAWPIXELS \<le> length buf"
    and "\<not> dest_fault out"
  shows "\<not> dest_fault (transfer e g (Some t) (Some buf) x y out)"
proof -
  have "dest_inv (scanlines True g w 0 h
        \<lparr>sdfile = f, sdbuf = sdbuf0 e, srcidx = sizeof_sdbuf, dest = buf, destidx = 0,
         trace = tr, sdbuf_overrun = False, dest_overrun = False\<rparr>)" for w h f tr
    using assms(1,2)
    by (intro dest_inv_scanlines) (simp add: dest_inv_def src_inv_def sizeof_sdbuf_def)
  then show ?thesis
    using assms(3)
    by (auto simp add: transfer_def Let_def dest_inv_def split: option.splits prod.splits)
qed

lemma faults_coreBMP:
  assumes "length (sdbuf0 e) = sizeof_sdbuf"
  shows "\<not> sdbuf_fault (coreBMP e file0 filename tft d x y canvas1 canvas2 palette fmt)"
    and "DRAWPIXELS \<le> length buf \<Longrightarrow>
      \<not> dest_fault (coreBMP e file0 filename (Some t) (Some buf) x y canvas1 canvas2 palette fmt)"
proof -
  show "\<not> sdbuf_fault (coreBMP e file0 filename tft d x y canvas1 canvas2 palette fmt)"
  proof (cases "off_screen tft x y")
    case True
    then show ?thesis by (simp add: coreBMP_off_screen initial_outcome_def)
  next
    case False
    note vis = this
    show ?thesis
    proof (cases "card e filename")
      case None
      with vis show ?thesis by (simp add: coreBMP_not_found initial_outcome_def)
    next
      case (Some bytes)
      show ?thesis
      proof (cases "header_accepted bytes")
        case False
        with vis Some show ?thesis by (simp add: coreBMP_rejected initial_outcome_def)
      next
        case True
        with vis Some show ?thesis
          using assms by (simp add: coreBMP_accepted Let_def sdbuf_fault_transfer initial_outcome_def)
      qed
    qed
  qed
next
  assume len: "DRAWPIXELS \<le> length buf"
  show "\<not> dest_fault (coreBMP e file0 filename (Some t) (Some buf) x y canvas1 canvas2 palette fmt)"
  proof (cases "off_screen (Some t) x y")
    case True
    then show ?thesis by (simp add: coreBMP_off_screen initial_outcome_def)
  next
    case False
    note vis = this
    show ?thesis
    proof (cases "card e filename")
      case None
      with vis show ?thesis by (simp add: coreBMP_not_found initial_outcome_def)
    next
      case (Some bytes)
      show ?thesis
      proof (cases "header_accepted bytes")
        case False
        with vis Some show ?thesis by (simp add: coreBMP_rejected initial_outcome_def)
      next
        case True
        with vis Some show ?thesis
          using assms len by (simp add: coreBMP_accepted Let_def dest_fault_transfer initial_outcome_def)
      qed
    qed
  qed
qed

lemma convert_detects_overrun:
  "length (sdbuf s) \<le> srcidx s + 2 \<Longrightarrow> sdbuf_overrun (convert s)"
  "length (dest s) \<le> destidx s \<Longrightarrow> dest_overrun (convert s)"
  by (simp_all add: convert_def Let_def)

text \<open>
  Claim C10. No pixel fetch reads \<^verbatim>\<open>sdbuf\<close> past its \<open>3 * DRAWPIXELS\<close> bytes, in
  either mode, and in display mode no pixel is stored past the \<open>DRAWPIXELS\<close> entries of
  the batch buffer: neither overrun flag is ever raised.
\<close>

theorem buffer_indices_in_bounds:
  assumes "length (sdbuf0 e) = sizeof_sdbuf" and "length (tftbuf0 e) = DRAWPIXELS"
  shows "\<not> sdbuf_fault (drawBMP e file0 filename t x y)
    \<and> \<not> dest_fault (drawBMP e file0 filename t x y)
    \<and> \<not> sdbuf_fault (loadBMP e file0 filename canvas1 canvas2 palette fmt)"
  using assms faults_coreBMP [of e]
  by (simp add: drawBMP_def loadBMP_def)

theorem buffer_indices_in_bounds_witness:
  "length (sdbuf0 sample_env) = sizeof_sdbuf \<and> length (tftbuf0 sample_env) = DRAWPIXELS
   \<and> \<not> sdbuf_fault (drawBMP sample_env no_file ''a.bmp'' sample_tft (- 5) 0)
   \<and> \<not> dest_fault (drawBMP sample_env no_file ''a.bmp'' sample_tft (- 5) 0)
   \<and> \<not> sdbuf_fault (loadBMP sample_env no_file ''a.bmp'' (Some None) None None
            (Some CANVAS_NONE))"
  using buffer_indices_in_bounds
    [of sample_env no_file "''a.bmp''" sample_tft "- 5" 0 "Some None" None None
      "Some CANVAS_NONE"]
  by (simp add: sample_env_def)

section \<open>The sample variants\<close>

lemma sample_topdown_accepted: "header_accepted sample_topdown"
  by (simp add: header_accepted_def field16_def field32_def sample_topdown_def sample_bmp_def)

lemma sample_topdown_geometry:
  "geometry_of sample_topdown =
     \<lparr>offset = 54, bmpWidth = 6, bmpHeight = 1, flip = False, rowSize = 20\<rparr>"
  by (simp add: geometry_of_def field32_def sample_topdown_def sample_bmp_def word_sless_alt)

lemma sample_empty_accepted: "header_accepted sample_empty"
  by (simp add: header_accepted_def field16_def field32_def sample_empty_def sample_bmp_def)

lemma sample_empty_geometry:
  "geometry_of sample_empty =
     \<lparr>offset = 54, bmpWidth = 0, bmpHeight = 1, flip = True, rowSize = 0\<rparr>"
  by (simp add: geometry_of_def field32_def sample_empty_def sample_bmp_def word_sless_alt)

section \<open>Colour conversion\<close>

lemma color565_formula:
  "color565 r g b =
     push_bit 8 (ucast r AND 0xF8) OR push_bit 3 (ucast g AND 0xFC) OR drop_bit 3 (ucast b AND 0xF8)"
  unfolding color565_def
  by (rule bit_word_eqI) (auto simp add: bit_simps dest: bit_imp_le_length)

text \<open>
  Claim C7. The pixel stored at \<^verbatim>\<open>dest[destidx]\<close> is the 16-bit value
  \<open>((R & 0xF8) << 8) | ((G & 0xFC) << 3) | ((B & 0xF8) >> 3)\<close> of the three buffer bytes
  read in the order B, G, R; pure blue, green and red give 0x001F, 0x07E0 and 0xF800.
\<close>

theorem pixel_conversion:
  "dest (convert s) =
     (dest s)[destidx s :=
        push_bit 8 (ucast (sdbuf s ! (srcidx s + 2)) AND 0xF8)
          OR push_bit 3 (ucast (sdbuf s ! (srcidx s + 1)) AND 0xFC)
          OR drop_bit 3 (ucast (sdbuf s ! srcidx s) AND 0xF8)]
   \<and> color565 0 0 0xFF = 0x001F \<and> color565 0 0xFF 0 = 0x07E0 \<and> color565 0xFF 0 0 = 0xF800"
  by (simp add: convert_def Let_def color565_formula)

section \<open>Row order\<close>

lemma position_after_seek_row:
  "File_position (sdfile (seek_row t p s)) = p"
  by (simp add: seek_row_def emit_def Let_def File_seek_def File_position_def)

text \<open>
  What the header decides: a negative height field clears \<^verbatim>\<open>flip\<close> and is negated,
  and the byte position computed for destination row r is \<open>offset + r * rowSize\<close>;
  otherwise \<^verbatim>\<open>flip\<close> stays set and the position is
  \<open>offset + (height - 1 - r) * rowSize\<close>. The stream is at that position when the
  pixels of the row are taken.
\<close>

lemma header_sets_row_positions:
  assumes "fpos f = 0" and "parseHeader f = (Some g, f')"
  shows "(field32 (content f) 22 <s 0 \<longrightarrow>
            \<not> flip g \<and> bmpHeight g = - field32 (content f) 22
            \<and> (\<forall>row. bmpPos_of g row = offset g + word_of_nat row * rowSize g))
       \<and> (\<not> field32 (content f) 22 <s 0 \<longrightarrow>
            flip g \<and> bmpHeight g = field32 (content f) 22
            \<and> (\<forall>row. bmpPos_of g row
                   = offset g + (bmpHeight g - 1 - word_of_nat row) * rowSize g))
       \<and> (\<forall>row t s. File_position (sdfile (seek_row t (bmpPos_of g row) s)) = bmpPos_of g row)"
proof -
  from assms have g: "g = geometry_of (content f)"
    using parseHeader_accept [of f] parseHeader_reject [of f]
    by (cases "header_accepted (content f)") auto
  show ?thesis
    by (simp add: g geometry_of_def bmpPos_of_def position_after_seek_row)
qed

text \<open>
  The pixels of a row are taken from the transfer buffer, and the buffer is only
  invalidated by a seek. A row whose position the stream has already reached, while
  bytes are left in the buffer, is converted from those leftover bytes: no seek, no
  reload.
\<close>

lemma sample_wide_length: "length sample_wide = 1254"
  by (simp add: sample_wide_def)

lemma sample_wide_accepted: "header_accepted sample_wide"
  by (simp add: header_accepted_def field16_def field32_def sample_wide_def)

lemma sample_wide_geometry:
  "geometry_of sample_wide =
     \<lparr>offset = 54, bmpWidth = 200, bmpHeight = 2, flip = False, rowSize = 600\<rparr>"
  by (simp add: geometry_of_def field32_def sample_wide_def word_sless_alt)

lemma sample_wide_rows:
  "scanlines True \<lparr>offset = 54, bmpWidth = 200, bmpHeight = 2, flip = False, rowSize = 600\<rparr>
     (Suc 0) 0 2
     \<lparr>sdfile = \<lparr>content = sample_wide, fpos = 34, is_open = True\<rparr>,
      sdbuf = replicate 600 0, srcidx = 600, dest = replicate 200 0, destidx = 0,
      trace = [SetAddrWindow 239 0 1 2, StartWrite, SdOpen ''w.bmp''],
      sdbuf_overrun = False, dest_overrun = False\<rparr>
   = \<lparr>sdfile = \<lparr>content = sample_wide, fpos = 654, is_open = True\<rparr>,
      sdbuf = take 600 (drop 54 sample_wide), srcidx = 6,
      dest = (replicate 200 0)[0 := 0x07E0], destidx = 0,
      trace = [EndWrite, WritePixels [0x07E0], Yield,
               EndWrite, WritePixels [0x001F], StartWrite, FileReadBuf 54 600, EndWrite,
               FileSeek 54, EndWrite, Yield, SetAddrWindow 239 0 1 2, StartWrite,
               SdOpen ''w.bmp''],
      sdbuf_overrun = False, dest_overrun = False\<rparr>"
  by (simp add: loop_defs sample_wide_def Let_def take_update_swap)

lemma sample_wide_draw:
  "calls (drawBMP sample_env no_file ''w.bmp'' sample_tft 239 0) =
     [FileClose, EndWrite, WritePixels [0x07E0], Yield,
      EndWrite, WritePixels [0x001F], StartWrite, FileReadBuf 54 600, EndWrite,
      FileSeek 54, EndWrite, Yield, SetAddrWindow 239 0 1 2, StartWrite, SdOpen ''w.bmp'']"
proof -
  have "coreBMP sample_env no_file ''w.bmp'' (Some sample_tft) (Some (tftbuf0 sample_env)) 239 0
          None None None None =
     (let out2 = transfer sample_env (geometry_of sample_wide) (Some sample_tft)
                   (Some (tftbuf0 sample_env)) 239 0
                   (initial_outcome None None None None
                      \<lparr>content = sample_wide, fpos = 34, is_open = True\<rparr> [SdOpen ''w.bmp''])
      in out2\<lparr>file_member := File_close (file_member out2),
              calls := FileClose # calls out2\<rparr>)"
    by (rule coreBMP_accepted)
      (simp_all add: sample_env_def off_screen_def sample_tft_def sample_wide_accepted word_sle_eq)
  then show ?thesis
    by (simp add: drawBMP_def sample_wide_geometry sample_env_def sample_tft_def transfer_def
        crop_def initial_outcome_def word_sless_alt sizeof_sdbuf_def DRAWPIXELS_def
        sample_wide_rows Let_def File_close_def del: scanlines.simps)
qed

lemma refill_within_buffer: "srcidx s < sizeof_sdbuf \<Longrightarrow> refill t s = s"
  by (simp add: refill_def)

lemma row_found_in_place_keeps_buffer:
  assumes "File_position (sdfile s) = bmpPos_of g row" and "srcidx s < sizeof_sdbuf"
  shows "pixel t (seek_row t (bmpPos_of g row) (emit Yield s)) = convert (emit Yield s)"
  using assms by (simp add: pixel_def seek_row_def refill_def emit_def)

lemma pixels_within_buffer:
  "srcidx s + 3 * n \<le> sizeof_sdbuf \<Longrightarrow>
   srcidx (pixels t n s) = srcidx s + 3 * n \<and> sdfile (pixels t n s) = sdfile s
   \<and> sdbuf (pixels t n s) = sdbuf s \<and> trace (pixels t n s) = trace s"
proof (induction n arbitrary: s)
  case 0
  then show ?case by simp
next
  case (Suc n)
  then have lt: "srcidx s < sizeof_sdbuf" by simp
  have step: "pixel t s = convert s"
    using lt by (simp add: pixel_def refill_def)
  have "srcidx (convert s) + 3 * n \<le> sizeof_sdbuf"
    using Suc.prems by (simp add: convert_def Let_def)
  from Suc.IH [OF this] show ?case
    by (simp add: step) (simp add: convert_def Let_def)
qed

lemma row_of_199_leaves_padding:
  assumes "sizeof_sdbuf \<le> srcidx s" and "fpos (sdfile s) + 600 \<le> length (content (sdfile s))"
  shows "srcidx (pixels t 199 s) = 597
    \<and> fpos (sdfile (pixels t 199 s)) = fpos (sdfile s) + 600"
proof -
  have "pixels t 199 s = pixels t 198 (pixel t s)"
    by (simp add: numeral_eq_Suc)
  moreover have "srcidx (pixel t s) = 3" and "fpos (sdfile (pixel t s)) = fpos (sdfile s) + 600"
    using assms
    by (simp_all add: pixel_def refill_def convert_def flush_def emit_def load_sdbuf_def
        File_read_buf_def Let_def sizeof_sdbuf_def DRAWPIXELS_def)
  moreover have "srcidx (pixel t s) + 3 * 198 \<le> sizeof_sdbuf"
    using calculation(2) by (simp add: sizeof_sdbuf_def DRAWPIXELS_def)
  ultimately show ?thesis
    using pixels_within_buffer [of "pixel t s" 198 t] by simp
qed

text \<open>
  Claim C4 against the code. The 200 by 2 top-down sample is drawn at x = 239 on the
  240-wide display, so one column is loaded. Row 0 seeks to 54 and reads 600 bytes: the
  stream is at 654 and one pixel is consumed. Row 1 is at 654, so there is no seek and
  no reload, and its pixel is converted from bytes 3 to 5 of the buffer: destination
  row 1 shows column 1 of source row 0 (green), not column 0 of source row 1 (red). The
  header part of the claim holds (\<^verbatim>\<open>flip\<close> is cleared, row 1 is at 654). A row of 199
  pixels read at the origin leaves the stream one stride further with three padding
  bytes in the buffer (\<open>row_of_199_leaves_padding\<close>), and the next row starts from them.
\<close>

theorem second_row_read_from_leftover_bytes:
  "\<not> flip (geometry_of sample_wide)
   \<and> bmpPos_of (geometry_of sample_wide) 1 = 654
   \<and> pixels_written (calls (drawBMP sample_env no_file ''w.bmp'' sample_tft 239 0))
       = [color565 (sample_wide ! 56) (sample_wide ! 55) (sample_wide ! 54),
          color565 (sample_wide ! 59) (sample_wide ! 58) (sample_wide ! 57)]
   \<and> color565 (sample_wide ! 59) (sample_wide ! 58) (sample_wide ! 57)
       \<noteq> color565 (sample_wide ! 656) (sample_wide ! 655) (sample_wide ! 654)
   \<and> length (filter is_seek (calls (drawBMP sample_env no_file ''w.bmp'' sample_tft 239 0))) = 1"
proof -
  have "color565 (sample_wide ! 56) (sample_wide ! 55) (sample_wide ! 54) = 0x001F"
    and "color565 (sample_wide ! 59) (sample_wide ! 58) (sample_wide ! 57) = 0x07E0"
    and "color565 (sample_wide ! 656) (sample_wide ! 655) (sample_wide ! 654) = 0xF800"
    by (simp_all add: color565_def sample_wide_def nth_append)
  then show ?thesis
    by (simp add: sample_wide_draw sample_wide_geometry bmpPos_of_def)
qed

section \<open>Seeking to the scanline\<close>




lemma no_seek_pixel_calls [simp]: "filter is_seek (pixel_calls t s) = []"
  by (simp add: pixel_calls_def)

lemma no_seek_pixels_calls [simp]: "filter is_seek (pixels_calls t n s) = []"
  by (induction n arbitrary: s) simp_all




lemma storage_access_seek [simp]: "is_seek e \<Longrightarrow> storage_access e"
  by (cases e) simp_all



section \<open>Rejected headers\<close>

text \<open>
  Claim C3, as amended. When the decode is not cut short by the off-screen return and
  the stream opens, a header that \<^verbatim>\<open>coreBMP\<close> does not accept (fewer than 34 bytes, or
  a failed signature, plane-count or compression test, or a depth whose low byte is not
  24) gives \<^verbatim>\<open>IMAGE_ERR_FORMAT\<close>; the only calls made are the open and the close, no
  pixel is written to the display and the caller's canvas pointer is left as it was.
\<close>

theorem rejected_header_writes_nothing:
  assumes "\<not> off_screen tft x y" and "card e filename = Some bytes"
    and "\<not> header_accepted bytes"
  shows "status (coreBMP e file0 filename tft d x y canvas1 canvas2 palette fmt) = IMAGE_ERR_FORMAT
    \<and> calls (coreBMP e file0 filename tft d x y canvas1 canvas2 palette fmt)
        = [FileClose, SdOpen filename]
    \<and> pixels_written (calls (coreBMP e file0 filename tft d x y canvas1 canvas2 palette fmt)) = []
    \<and> out_canvas1 (coreBMP e file0 filename tft d x y canvas1 canvas2 palette fmt) = canvas1"
  using assms by (simp add: coreBMP_rejected initial_outcome_def)

lemma sample_not_bmp_rejected: "\<not> header_accepted sample_not_bmp"
  by (simp add: header_accepted_def field16_def sample_not_bmp_def sample_bmp_def)

theorem rejected_header_writes_nothing_witness:
  "status (drawBMP sample_env no_file ''x.bmp'' sample_tft 0 0) = IMAGE_ERR_FORMAT
   \<and> pixels_written (calls (drawBMP sample_env no_file ''x.bmp'' sample_tft 0 0)) = []
   \<and> status (loadBMP sample_env no_file ''x.bmp'' (Some None) None None (Some CANVAS_NONE))
       = IMAGE_ERR_FORMAT
   \<and> out_canvas1 (loadBMP sample_env no_file ''x.bmp'' (Some None) None None (Some CANVAS_NONE))
       = Some None"
  using
    rejected_header_writes_nothing [of "Some sample_tft" 0 0 sample_env "''x.bmp''" sample_not_bmp
      no_file "Some (tftbuf0 sample_env)" None None None None]
    rejected_header_writes_nothing [of None 0 0 sample_env "''x.bmp''" sample_not_bmp
      no_file None "Some None" None None "Some CANVAS_NONE"]
  by (simp add: drawBMP_def loadBMP_def off_screen_def sample_env_def sample_tft_def
      sample_not_bmp_rejected word_sle_eq)

text \<open>
  Claim C3 as stated fails: a file with a wrong signature, drawn at an origin on the
  right edge of the display, returns \<^verbatim>\<open>IMAGE_SUCCESS\<close>; the header is never read.
\<close>

theorem rejected_header_counterexample:
  "field16 sample_not_bmp 0 \<noteq> 0x4D42
   \<and> card sample_env ''x.bmp'' = Some sample_not_bmp
   \<and> status (drawBMP sample_env no_file ''x.bmp'' sample_tft 240 0) = IMAGE_SUCCESS"
  by (simp add: drawBMP_def coreBMP_off_screen off_screen_def sample_tft_def word_sle_eq
      initial_outcome_def field16_def sample_not_bmp_def sample_bmp_def sample_env_def)

text \<open>
  The depth is compared after narrowing to 8 bits: a depth field of 280 passes the test.
\<close>

lemma depth_field_narrowed:
  "field16 (sample_bmp[29 := 1]) 28 = 280 \<and> header_accepted (sample_bmp[29 := 1])"
  by (simp add: header_accepted_def field16_def field32_def sample_bmp_def)

section \<open>Where the code parts from the specification\<close>

text \<open>The region: a negative x shrinks the width by as much and moves the origin to 0.\<close>

lemma crop_negative_x:
  assumes "x <s 0" and "\<not> scast (tft_width t) <s bmpWidth g + scast x"
  shows "fst (crop t x y g) = 0 \<and> fst (snd (snd (crop t x y g))) = bmpWidth g + scast x"
  using assms by (simp add: crop_def Let_def case_prod_beta)

text \<open>
  Claim C1 against the code. Drawing the 6 by 1 sample at x = -5 loads one column, as
  the claim says, but the pixel sent is source column 0 (blue) and not source column 5
  (red): the row is read from its first byte, and the columns cut off are the trailing
  ones.
\<close>

theorem negative_origin_keeps_leading_columns:
  "crop sample_tft (- 5) 0 (geometry_of sample_bmp) = (0, 0, 1, 1)
   \<and> pixels_written (calls (drawBMP sample_env no_file ''a.bmp'' sample_tft (- 5) 0))
       = [color565 (sample_bmp ! 56) (sample_bmp ! 55) (sample_bmp ! 54)]
   \<and> pixels_written (calls (drawBMP sample_env no_file ''a.bmp'' sample_tft (- 5) 0))
       \<noteq> [color565 (sample_bmp ! 71) (sample_bmp ! 70) (sample_bmp ! 69)]"
proof -
  have "crop sample_tft (- 5) 0 (geometry_of sample_bmp) = (0, 0, 1, 1)"
    by (simp add: sample_geometry crop_def sample_tft_def word_sless_alt)
  moreover have "pixels_written (calls (drawBMP sample_env no_file ''a.bmp'' sample_tft (- 5) 0))
      = [0x001F]"
    by (simp add: sample_draw)
  moreover have "color565 (sample_bmp ! 56) (sample_bmp ! 55) (sample_bmp ! 54) = 0x001F"
    and "color565 (sample_bmp ! 71) (sample_bmp ! 70) (sample_bmp ! 69) = 0xF800"
    by (simp_all add: color565_def sample_bmp_def)
  ultimately show ?thesis by simp
qed

text \<open>
  An image with positive width and height is loaded into a canvas of exactly its
  dimensions, tagged \<^verbatim>\<open>CANVAS_16\<close>.
\<close>

lemma length_dest_pixel: "length (dest (pixel t s)) = length (dest s)"
  by (simp add: pixel_def convert_def refill_def flush_def emit_def load_sdbuf_def
      case_prod_beta Let_def)

lemma length_dest_pixels: "length (dest (pixels t n s)) = length (dest s)"
  by (induction n arbitrary: s) (simp_all add: length_dest_pixel)

lemma length_dest_scanline: "length (dest (scanline t g w row s)) = length (dest s)"
  by (simp add: scanline_def end_row_def flush_def emit_def length_dest_pixels seek_row_def
      Let_def)

lemma length_dest_scanlines: "length (dest (scanlines t g w row n s)) = length (dest s)"
  by (induction n arbitrary: s row) (simp_all add: length_dest_scanline)

lemma loadBMP_populated:
  assumes "card e filename = Some bytes" and "header_accepted bytes" and "heap_ok e"
    and "0 <s bmpWidth (geometry_of bytes)" and "0 <s bmpHeight (geometry_of bytes)"
  shows "status (loadBMP e file0 filename (Some c0) canvas2 palette (Some f0)) = IMAGE_SUCCESS
    \<and> out_fmt (loadBMP e file0 filename (Some c0) canvas2 palette (Some f0)) = Some CANVAS_16
    \<and> (\<exists>c. out_canvas1 (loadBMP e file0 filename (Some c0) canvas2 palette (Some f0))
              = Some (Some c)
          \<and> canvas_width c = bmpWidth (geometry_of bytes)
          \<and> canvas_height c = bmpHeight (geometry_of bytes)
          \<and> length (buffer c)
              = nat (sint (bmpWidth (geometry_of bytes))) * nat (sint (bmpHeight (geometry_of bytes))))"
  using assms
  by (simp add: loadBMP_def coreBMP_accepted off_screen_def transfer_def new_GFXcanvas16_def
      initial_outcome_def Let_def length_dest_scanlines)

text \<open>
  Claim C5 against the code. Loading a file of width 0 into memory allocates the canvas
  and returns \<^verbatim>\<open>IMAGE_SUCCESS\<close>, but the store to \<^verbatim>\<open>*canvas1\<close> and the format tag
  sit inside the test of line 249: the caller's pointer is still null and the tag is
  \<^verbatim>\<open>CANVAS_NONE\<close>.
\<close>

theorem empty_image_loads_nothing:
  "status (loadBMP sample_env no_file ''e.bmp'' (Some None) None None (Some CANVAS_NONE))
     = IMAGE_SUCCESS
   \<and> out_canvas1 (loadBMP sample_env no_file ''e.bmp'' (Some None) None None (Some CANVAS_NONE))
     = Some None
   \<and> out_fmt (loadBMP sample_env no_file ''e.bmp'' (Some None) None None (Some CANVAS_NONE))
     = Some CANVAS_NONE"
proof -
  have "coreBMP sample_env no_file ''e.bmp'' None None 0 0 (Some None) None None
          (Some CANVAS_NONE) =
     (let out2 = transfer sample_env (geometry_of sample_empty) None None 0 0
                   (initial_outcome (Some None) None None (Some CANVAS_NONE)
                      \<lparr>content = sample_empty, fpos = 34, is_open = True\<rparr> [SdOpen ''e.bmp''])
      in out2\<lparr>file_member := File_close (file_member out2),
              calls := FileClose # calls out2\<rparr>)"
    by (rule coreBMP_accepted)
      (simp_all add: sample_env_def off_screen_def sample_empty_accepted)
  then show ?thesis
    by (simp add: loadBMP_def sample_empty_geometry sample_env_def transfer_def
        initial_outcome_def word_sless_alt new_GFXcanvas16_def Let_def)
qed

text \<open>With both pointers given, the fields are read from offsets 18 and 22.\<close>

lemma bmpDimensions_both:
  assumes "card e filename = Some bytes" and "26 \<le> length bytes"
    and "field16 bytes 0 = 0x4D42"
  shows "dim_status (bmpDimensions e filename (Some w0) (Some h0)) = IMAGE_SUCCESS
    \<and> out_width (bmpDimensions e filename (Some w0) (Some h0)) = Some (field32 bytes 18)
    \<and> out_height (bmpDimensions e filename (Some w0) (Some h0))
        = Some (if field32 bytes 22 <s 0 then - field32 bytes 22 else field32 bytes 22)"
  using assms
  by (simp add: bmpDimensions_def SD_open_def readLE16_full readLE32_full Let_def)

text \<open>
  Claim C9 against the code. With a null \<^verbatim>\<open>width\<close> pointer the width field is not
  read (line 340), so the height comes from offset 18: the sample is 6 wide and 1 high,
  and the height reported is 6.
\<close>

theorem height_read_from_width_field:
  "dim_status (bmpDimensions sample_env ''a.bmp'' None (Some 0)) = IMAGE_SUCCESS
   \<and> out_height (bmpDimensions sample_env ''a.bmp'' None (Some 0)) = Some 6
   \<and> field32 sample_bmp 18 = 6 \<and> field32 sample_bmp 22 = 1"
  by (simp add: bmpDimensions_def SD_open_def sample_env_def readLE16_def readLE32_def
      File_read_def File_close_def field32_def sample_bmp_def word_sless_alt Let_def)

end
